theory Spec2Isabelle
  imports Main
begin

section \<open>The Genie chat widget of script.js\<close>

text \<open>
  A shallow embedding of the class \<open>GenieChat\<close> of \<open>script.js\<close>: the widget's fields are a
  record that every method takes and returns, an exception is the left injection of a sum,
  and everything the widget does to the outside world (alerts, message nodes appended to the
  page, writes to \<open>localStorage\<close>, calls of the relay, timer waits) is appended to a
  chronological trace kept in the state. Console logging, CSS class changes and scrolling
  are left out. A JavaScript string is a \<open>string\<close> whose characters are read as code units
  below 256.
\<close>

subsection \<open>Data received from the relay\<close>

text \<open>A cell of \<open>data_array\<close>: \<open>null\<close>, a string or an integral number.\<close>

datatype cell = CellNull | CellString string | CellNumber int

record column =
  col_name :: string
  col_type :: string

text \<open>
  \<open>schema\<close> holds \<open>schema.columns\<close>; it is \<open>None\<close> when \<open>schema\<close> or its
  \<open>columns\<close> is missing. \<open>data_array\<close> and \<open>row_count\<close> are \<open>None\<close> when missing.
\<close>

record genie_query_result =
  data_array :: "cell list list option"
  schema :: "column list option"
  row_count :: "nat option"
  truncated :: bool

text \<open>\<open>attachment.query\<close>: the generated SQL \<open>query\<close> and its \<open>query_result\<close>.\<close>

record genie_query =
  query :: "string option"
  query_result :: "genie_query_result option"

text \<open>
  An attachment: \<open>att_query\<close> is \<open>attachment.query\<close>, \<open>att_text\<close> is
  \<open>attachment.text.content\<close> (\<open>None\<close> when \<open>text\<close> or \<open>content\<close> is missing).
\<close>

record attachment =
  att_query :: "genie_query option"
  att_text :: "string option"

text \<open>
  \<open>result.error\<close> of a poll: a string, or an object with its own \<open>error\<close> field (when
  present) and the text \<open>JSON.stringify\<close> gives for the object.
\<close>

datatype error_detail = ErrorText string | ErrorObject "string option" string

record poll_data =
  status :: string
  error :: "error_detail option"
  attachments :: "attachment list option"

record message_data =
  message_id :: string
  message_status :: string

text \<open>
  A thrown value: \<open>Error msg\<close> is \<open>new Error(msg)\<close>; \<open>TypeError p\<close> is the engine's
  error for reading property \<open>p\<close> of \<open>undefined\<close>.
\<close>

datatype js_error = Error string | TypeError string

fun error_message :: "js_error \<Rightarrow> string" where
  "error_message (Error msg) = msg"
| "error_message (TypeError p) =
     ''Cannot read properties of undefined (reading '' @ [CHR 0x27] @ p @ [CHR 0x27] @ '')''"

subsection \<open>The widget's state and its effects\<close>

record turn =
  role :: string
  content :: string
  timestamp :: nat

text \<open>How a message node receives its content: \<open>innerHTML\<close> or \<open>textContent\<close>.\<close>

datatype dom_content = InnerHTML string | TextContent string

text \<open>
  The document under the key \<open>GENIE_CHAT_STATE\<close>: the value \<open>JSON.stringify\<close> wrote,
  as \<open>JSON.parse\<close> reads it back. \<open>Corrupt\<close> is an item that does not parse.
\<close>

record saved_state =
  saved_conversationId :: "string option"
  saved_messages :: "turn list option"

datatype local_storage = NoItem | Corrupt | Item saved_state

datatype request =
    Start_conversation
  | Send_message "string option" string
  | Poll_result "string option" string

datatype event =
    Alert string
  | AppendMessage string dom_content
  | SetItem saved_state
  | CallAPI request
  | Wait nat
  | ShowTyping
  | HideTyping
  | AppendError string bool
  | RemoveError

record genie_chat =
  conversationId :: "string option"
  messages :: "turn list"
  isLoading :: bool
  lastQuery :: "string option"
  input_value :: string
  sendBtn_disabled :: bool
  localStorage :: local_storage
  clock :: nat
  trace :: "event list"

text \<open>
  The relay and the service behind it, as the widget sees them through \<open>callAPI\<close>: each
  call either throws or returns \<open>result.data\<close>. \<open>start_conversation\<close> returns the
  \<open>conversation_id\<close> of the data, \<open>poll_result n\<close> answers the poll of attempt \<open>n\<close>,
  and \<open>latency\<close> is the time a call takes in milliseconds.
\<close>

record relay =
  start_conversation :: "js_error + string option"
  send_message :: "string option \<Rightarrow> string \<Rightarrow> js_error + message_data"
  poll_result :: "nat \<Rightarrow> js_error + poll_data"
  latency :: "request \<Rightarrow> nat"

definition emit :: "event \<Rightarrow> genie_chat \<Rightarrow> genie_chat" where
  "emit e s = s\<lparr>trace := trace s @ [e]\<rparr>"

text \<open>\<open>await new Promise(resolve => setTimeout(resolve, delay))\<close>\<close>

definition wait :: "nat \<Rightarrow> genie_chat \<Rightarrow> genie_chat" where
  "wait delay s = emit (Wait delay) (s\<lparr>clock := clock s + delay\<rparr>)"

text \<open>
  \<open>callAPI\<close>: one POST to \<open>/api/genie\<close>, whose outcome (the data, or the error thrown for
  a non-OK status, an unsuccessful envelope or an unparsable body) is the relay's.
\<close>

definition callAPI :: "relay \<Rightarrow> request \<Rightarrow> 'a \<Rightarrow> genie_chat \<Rightarrow> 'a \<times> genie_chat" where
  "callAPI env req outcome s =
     (outcome, emit (CallAPI req) (s\<lparr>clock := clock s + latency env req\<rparr>))"

subsection \<open>pollForResult\<close>

definition delays :: "nat list" where
  "delays = [500, 1000, 2000, 5000]"

definition maxAttempts :: nat where
  "maxAttempts = 30"

text \<open>The message of a FAILED poll, from \<open>result.error\<close>.\<close>

fun errorMessage :: "error_detail option \<Rightarrow> string" where
  "errorMessage None = ''Query failed''"
| "errorMessage (Some (ErrorObject (Some e) js)) = (if e \<noteq> [] then e else js)"
| "errorMessage (Some (ErrorObject None js)) = js"
| "errorMessage (Some (ErrorText t)) = (if t \<noteq> [] then t else ''Query failed'')"

function pollForResult ::
  "relay \<Rightarrow> string \<Rightarrow> nat \<Rightarrow> genie_chat \<Rightarrow> (js_error + poll_data) \<times> genie_chat" where
  "pollForResult env messageId attempt s =
     (if attempt \<ge> maxAttempts then
        (Inl (Error ''Query timeout - Genie took too long to respond. This might be a complex query.''), s)
      else
        let delay = delays ! (min attempt (length delays - 1));
            s1 = wait delay s;
            (r, s2) = callAPI env (Poll_result (conversationId s1) messageId)
                        (poll_result env attempt) s1
        in case r of
             Inl e \<Rightarrow> (Inl e, s2)
           | Inr result \<Rightarrow>
               if status result = ''EXECUTING'' \<or> status result = ''FILTERING_CONTEXT''
                  \<or> status result = ''QUERY_RESULT_EXPIRED''
               then pollForResult env messageId (attempt + 1) s2
               else if status result = ''COMPLETED'' then (Inr result, s2)
               else if status result = ''FAILED'' then
                 (Inl (Error (errorMessage (error result))), s2)
               else pollForResult env messageId (attempt + 1) s2)"
  by pat_completeness auto
termination
  by (relation "measure (\<lambda>(env, messageId, attempt, s). maxAttempts - attempt)") auto

subsection \<open>Strings\<close>

text \<open>\<open>String.prototype.includes\<close>\<close>

fun str_includes :: "string \<Rightarrow> string \<Rightarrow> bool" where
  "str_includes [] sub = (sub = [])"
| "str_includes (c # cs) sub = (take (length sub) (c # cs) = sub \<or> str_includes cs sub)"

text \<open>
  \<open>String.prototype.trim\<close> strips white space and line terminators from both ends;
  below code unit 256 these are tab, LF, VT, FF, CR, space and the no-break space.
\<close>

definition isWhiteSpace :: "char \<Rightarrow> bool" where
  "isWhiteSpace c = (c \<in> set [CHR 0x09, CHR 0x0A, CHR 0x0B, CHR 0x0C, CHR 0x0D, CHR 0x20, CHR 0xA0])"

definition trim :: "string \<Rightarrow> string" where
  "trim text = rev (dropWhile isWhiteSpace (rev (dropWhile isWhiteSpace text)))"

text \<open>
  \<open>String(n)\<close> and template interpolation of an integral number (of magnitude below
  \<open>10^21\<close>, which JavaScript prints in plain decimal).
\<close>

definition digit :: "nat \<Rightarrow> char" where
  "digit d = char_of (48 + d)"

function nat_to_string :: "nat \<Rightarrow> string" where
  "nat_to_string n = (if n < 10 then [digit n] else nat_to_string (n div 10) @ [digit (n mod 10)])"
  by pat_completeness auto
termination
  by (relation "measure id") auto

definition int_to_string :: "int \<Rightarrow> string" where
  "int_to_string i = (if i < 0 then ''-'' @ nat_to_string (nat (- i)) else nat_to_string (nat i))"

text \<open>
  \<open>escapeHtml\<close> assigns the text to the \<open>textContent\<close> of a fresh \<open>div\<close> and reads its
  \<open>innerHTML\<close>: the browser serialises the text node, replacing the ampersand, the
  no-break space and the two angle brackets by their character references.
\<close>

definition escapeChar :: "char \<Rightarrow> string" where
  "escapeChar c =
     (if c = CHR ''&'' then ''&amp;''
      else if c = CHR 0xA0 then ''&nbsp;''
      else if c = CHR ''<'' then ''&lt;''
      else if c = CHR ''>'' then ''&gt;''
      else [c])"

definition escapeHtml :: "string \<Rightarrow> string" where
  "escapeHtml text = concat (map escapeChar text)"

text \<open>The truth value JavaScript gives an optional string: missing and empty are false.\<close>

fun truthy :: "string option \<Rightarrow> bool" where
  "truthy None = False"
| "truthy (Some t) = (t \<noteq> [])"

subsection \<open>saveState, loadState and addMessage\<close>

text \<open>\<open>messages.slice(-n)\<close>\<close>

definition slice_last :: "nat \<Rightarrow> 'a list \<Rightarrow> 'a list" where
  "slice_last n xs = drop (length xs - n) xs"

definition saveState :: "genie_chat \<Rightarrow> genie_chat" where
  "saveState s =
     (let state = \<lparr>saved_conversationId = conversationId s,
                   saved_messages = Some (slice_last 20 (messages s))\<rparr>
      in emit (SetItem state) (s\<lparr>localStorage := Item state\<rparr>))"

text \<open>The content of a message node: markup when the text has a \<open><\<close>, plain text otherwise.\<close>

definition messageNode :: "string \<Rightarrow> dom_content" where
  "messageNode c = (if str_includes c ''<'' then InnerHTML c else TextContent c)"

definition addMessage :: "string \<Rightarrow> string \<Rightarrow> genie_chat \<Rightarrow> genie_chat" where
  "addMessage r c s =
     (let s1 = emit (AppendMessage r (messageNode c)) s;
          s2 = s1\<lparr>messages := messages s1 @ [\<lparr>role = r, content = c, timestamp = clock s1\<rparr>]\<rparr>
      in saveState s2)"

text \<open>\<open>this.messages.forEach\<close> of \<open>loadState\<close>: one node per restored message.\<close>

fun restoreMessages :: "turn list \<Rightarrow> genie_chat \<Rightarrow> genie_chat" where
  "restoreMessages [] s = s"
| "restoreMessages (msg # msgs) s =
     restoreMessages msgs (emit (AppendMessage (role msg) (messageNode (content msg))) s)"

definition loadState :: "genie_chat \<Rightarrow> genie_chat" where
  "loadState s =
     (case localStorage s of
        NoItem \<Rightarrow> s
      | Corrupt \<Rightarrow> s
      | Item state \<Rightarrow>
          let s1 = s\<lparr>conversationId := saved_conversationId state,
                     messages := (case saved_messages state of None \<Rightarrow> [] | Some ms \<Rightarrow> ms)\<rparr>
          in if length (messages s1) > 0 then restoreMessages (messages s1) s1 else s1)"

text \<open>The widget as the constructor leaves it, before \<open>init\<close> loads the stored state.\<close>

definition constructed :: "local_storage \<Rightarrow> nat \<Rightarrow> genie_chat" where
  "constructed store now =
     \<lparr>conversationId = None, messages = [], isLoading = False, lastQuery = None,
      input_value = [], sendBtn_disabled = False, localStorage = store, clock = now,
      trace = []\<rparr>"

subsection \<open>renderDataTable\<close>

definition numericTypes :: "string list" where
  "numericTypes = [''LONG'', ''INT'', ''DOUBLE'', ''FLOAT'', ''DECIMAL'']"

text \<open>\<open>cell === null ? 'NULL' : String(cell)\<close>\<close>

fun displayValue :: "cell \<Rightarrow> string" where
  "displayValue CellNull = ''NULL''"
| "displayValue (CellString t) = t"
| "displayValue (CellNumber n) = int_to_string n"

definition className :: "string \<Rightarrow> string" where
  "className colType = (if colType \<in> set numericTypes then ''numeric'' else [])"

text \<open>One \<open><td>\<close> element, as the template literal of the inner loop builds it.\<close>

definition renderCell :: "string \<Rightarrow> cell \<Rightarrow> string" where
  \<open>renderCell colType c =
     ''<td class="'' @ className colType @ ''">'' @ escapeHtml (displayValue c) @ ''</td>''\<close>

text \<open>
  \<open>schema.columns.forEach\<close>, \<open>row.forEach\<close> and \<open>data_array.forEach\<close>, each appending to
  \<open>html\<close>. Reading \<open>.type\<close> of a column the schema does not have throws. So does reading
  \<open>schema.columns.length\<close> when \<open>schema\<close> or its \<open>columns\<close> is missing; the error names
  \<open>columns\<close> in both cases here, where the engine names \<open>length\<close> in the second.
\<close>

fun renderHeader :: "column list \<Rightarrow> string \<Rightarrow> string" where
  "renderHeader [] html = html"
| "renderHeader (col # cols) html =
     renderHeader cols (html @ ''<th>'' @ escapeHtml (col_name col) @ ''</th>'')"

fun renderCells :: "column list \<Rightarrow> cell list \<Rightarrow> nat \<Rightarrow> string \<Rightarrow> js_error + string" where
  "renderCells columns [] colIndex html = Inr html"
| "renderCells columns (c # row) colIndex html =
     (if colIndex < length columns then
        renderCells columns row (colIndex + 1)
          (html @ renderCell (col_type (columns ! colIndex)) c)
      else Inl (TypeError ''type''))"

fun renderRows :: "column list \<Rightarrow> cell list list \<Rightarrow> string \<Rightarrow> js_error + string" where
  "renderRows columns [] html = Inr html"
| "renderRows columns (row # rows) html =
     (case renderCells columns row 0 (html @ ''<tr>'') of
        Inl e \<Rightarrow> Inl e
      | Inr html' \<Rightarrow> renderRows columns rows (html' @ ''</tr>''))"

definition noDataFound :: string where
  \<open>noDataFound =
     ''<p style="color: var(--medium-gray); font-style: italic;">No data found for this query.</p>''\<close>

definition tableOpen :: string where
  \<open>tableOpen = ''<div class="genie-table-wrapper"><table class="genie-results-table">''\<close>

definition truncatedNote :: "nat \<Rightarrow> nat option \<Rightarrow> string" where
  \<open>truncatedNote len cnt =
     ''<p style="color: var(--gold); font-size: 0.85rem; margin-top: 5px;">Showing first ''
     @ nat_to_string len @ '' of ''
     @ (case cnt of None \<Rightarrow> ''undefined'' | Some n \<Rightarrow> nat_to_string n) @ '' rows</p>''\<close>

definition renderDataTable :: "genie_query_result \<Rightarrow> js_error + string" where
  "renderDataTable queryResult =
     (case data_array queryResult of
        None \<Rightarrow> Inr noDataFound
      | Some rows \<Rightarrow>
          if length rows = 0 then Inr noDataFound
          else case schema queryResult of
            None \<Rightarrow> Inl (TypeError ''columns'')
          | Some columns \<Rightarrow>
              let html = tableOpen;
                  html = html @ ''<thead><tr>'';
                  html = renderHeader columns html;
                  html = html @ ''</tr></thead>'';
                  html = html @ ''<tbody>''
              in (case renderRows columns rows html of
                    Inl e \<Rightarrow> Inl e
                  | Inr html \<Rightarrow>
                      (let html = html @ ''</tbody>'';
                           html = html @ ''</table></div>''
                       in Inr (if truncated queryResult
                               then html @ truncatedNote (length rows) (row_count queryResult)
                               else html))))"

subsection \<open>displayResult\<close>

text \<open>
  The first part of \<open>displayResult\<close>: the table of \<open>attachment.query.query_result\<close>,
  shown when \<open>data_array\<close> has a row. It returns the error \<open>renderDataTable\<close> threw, or
  the flag \<open>hasData\<close>.
\<close>

definition showTable :: "attachment \<Rightarrow> genie_chat \<Rightarrow> (js_error + bool) \<times> genie_chat" where
  "showTable att s =
     (case att_query att of
        None \<Rightarrow> (Inr False, s)
      | Some q \<Rightarrow>
          (case query_result q of
             None \<Rightarrow> (Inr False, s)
           | Some queryResult \<Rightarrow>
               (case data_array queryResult of
                  None \<Rightarrow> (Inr False, s)
                | Some rows \<Rightarrow>
                    if length rows > 0 then
                      (case renderDataTable queryResult of
                         Inl e \<Rightarrow> (Inl e, s)
                       | Inr tableHTML \<Rightarrow> (Inr True, addMessage ''assistant'' tableHTML s))
                    else (Inr False, s))))"

text \<open>\<open>attachment.text && attachment.text.content\<close>: the explanation, added as it came.\<close>

definition showText :: "attachment \<Rightarrow> genie_chat \<Rightarrow> genie_chat" where
  "showText att s =
     (if truthy (att_text att) then addMessage ''assistant'' (the (att_text att)) s else s)"

text \<open>\<open>attachment.query && attachment.query.query\<close>: the generated SQL, escaped.\<close>

definition sqlHTML :: "string \<Rightarrow> string" where
  \<open>sqlHTML q = ''<div class="genie-sql-code"><pre>'' @ escapeHtml q @ ''</pre></div>''\<close>

definition showSql :: "attachment \<Rightarrow> genie_chat \<Rightarrow> genie_chat" where
  "showSql att s =
     (case att_query att of
        None \<Rightarrow> s
      | Some q \<Rightarrow>
          if truthy (query q) then addMessage ''assistant'' (sqlHTML (the (query q))) s else s)"

definition noDataNotice :: string where
  "noDataNotice = ''Query executed but no data was returned. Check browser console for details.''"

definition noAttachmentNotice :: string where
  "noAttachmentNotice = ''Genie processed your query but returned no data.''"

text \<open>\<open>displayResult\<close> returns the error thrown, if any, and the state it leaves.\<close>

definition displayResult :: "poll_data \<Rightarrow> genie_chat \<Rightarrow> js_error option \<times> genie_chat" where
  "displayResult result s =
     (case attachments result of
        None \<Rightarrow> (None, addMessage ''assistant'' noAttachmentNotice s)
      | Some atts \<Rightarrow>
          if length atts = 0 then (None, addMessage ''assistant'' noAttachmentNotice s)
          else
            let att = atts ! 0 in
            (case showTable att s of
               (Inl e, s1) \<Rightarrow> (Some e, s1)
             | (Inr hasData, s1) \<Rightarrow>
                 let s2 = showText att s1;
                     s3 = showSql att s2
                 in (None, if \<not> hasData then addMessage ''assistant'' noDataNotice s3 else s3)))"

subsection \<open>showError\<close>

definition displayMessage :: "string \<Rightarrow> string" where
  "displayMessage message =
     (if str_includes message ''401'' \<or> str_includes message ''403'' then
        ''Authentication failed. Please check your Databricks credentials.''
      else if str_includes message ''429'' then
        ''Too many requests. Please wait a moment and try again.''
      else if str_includes message ''timeout'' then
        ''Query took too long to complete. Try a simpler question.''
      else if str_includes message ''fetch'' \<or> str_includes message ''network'' then
        ''Could not connect to Genie. Check your internet connection.''
      else if str_includes message ''Azure storage'' \<or> str_includes message ''not authorized'' then
        ''Data access error: The Genie Space may not have proper access to your data tables. Check your Databricks workspace permissions and storage configuration.''
      else if str_includes message ''SQL_EXECUTION_EXCEPTION'' then
        ''SQL execution error: The query failed to run. This may be due to data access permissions or missing tables in your workspace.''
      else message)"

text \<open>
  The error notice: the escaped message put into its markup, and whether it has a retry
  button. The click listener that \<open>showError\<close> registers on the button is \<open>retryClick\<close> below.
\<close>

definition showError :: "string \<Rightarrow> bool \<Rightarrow> genie_chat \<Rightarrow> genie_chat" where
  "showError message canRetry s = emit (AppendError (escapeHtml (displayMessage message)) canRetry) s"

subsection \<open>sendMessage and handleSend\<close>

text \<open>Step 2 of \<open>sendMessage\<close>: start a conversation when \<open>conversationId\<close> is not set.\<close>

definition startConversation :: "relay \<Rightarrow> genie_chat \<Rightarrow> js_error option \<times> genie_chat" where
  "startConversation env s =
     (if \<not> truthy (conversationId s) then
        (case callAPI env Start_conversation (start_conversation env) s of
           (Inl e, s1) \<Rightarrow> (Some e, s1)
         | (Inr conversation_id, s1) \<Rightarrow> (None, saveState (s1\<lparr>conversationId := conversation_id\<rparr>)))
      else (None, s))"

text \<open>Steps 3 to 6: send the message, poll, display.\<close>

definition sendAndPoll :: "relay \<Rightarrow> string \<Rightarrow> genie_chat \<Rightarrow> js_error option \<times> genie_chat" where
  "sendAndPoll env c s =
     (case callAPI env (Send_message (conversationId s) c)
             (send_message env (conversationId s) c) s of
        (Inl e, s1) \<Rightarrow> (Some e, s1)
      | (Inr messageData, s1) \<Rightarrow>
          let messageId = message_id messageData;
              s2 = emit ShowTyping s1
          in (case pollForResult env messageId 0 s2 of
                (Inl e, s3) \<Rightarrow> (Some e, s3)
              | (Inr result, s3) \<Rightarrow> displayResult result (emit HideTyping s3)))"

text \<open>The \<open>try\<close> block of \<open>sendMessage\<close>, up to the first call of the relay.\<close>

definition sendMessage_begin :: "string \<Rightarrow> genie_chat \<Rightarrow> genie_chat" where
  "sendMessage_begin c s = addMessage ''user'' c (s\<lparr>isLoading := True\<rparr>)"

definition sendMessage_try :: "relay \<Rightarrow> string \<Rightarrow> genie_chat \<Rightarrow> js_error option \<times> genie_chat" where
  "sendMessage_try env c s =
     (case startConversation env (sendMessage_begin c s) of
        (Some e, s1) \<Rightarrow> (Some e, s1)
      | (None, s1) \<Rightarrow> sendAndPoll env c s1)"

text \<open>\<open>try\<close>, \<open>catch\<close> and \<open>finally\<close>.\<close>

definition sendMessage :: "relay \<Rightarrow> string \<Rightarrow> genie_chat \<Rightarrow> genie_chat" where
  "sendMessage env c s =
     (let (thrown, s1) = sendMessage_try env c s;
          s2 = (case thrown of
                  None \<Rightarrow> s1
                | Some e \<Rightarrow> showError (error_message e) True (emit HideTyping s1))
      in s2\<lparr>isLoading := False\<rparr>)"

definition handleSend :: "relay \<Rightarrow> genie_chat \<Rightarrow> genie_chat" where
  "handleSend env s =
     (let text = trim (input_value s) in
      if length text < 5 then emit (Alert ''Please enter at least 5 characters'') s
      else if length text > 1000 then emit (Alert ''Message is too long (max 1000 characters)'') s
      else if isLoading s then s
      else sendMessage env text
             (s\<lparr>input_value := [], sendBtn_disabled := True, lastQuery := Some text\<rparr>))"

text \<open>
  The click listener of the retry button of an error notice: it removes the notice and, when
  \<open>lastQuery\<close> is set, calls \<open>sendMessage\<close> with it. The button stays on the page until it is
  clicked.
\<close>

definition retryClick :: "relay \<Rightarrow> genie_chat \<Rightarrow> genie_chat" where
  "retryClick env s =
     (let s1 = emit RemoveError s in
      if truthy (lastQuery s1) then sendMessage env (the (lastQuery s1)) s1 else s1)"

subsection \<open>Observing a run\<close>

text \<open>The timer waits of a trace, in order, and the requests sent to the relay.\<close>

fun waits :: "event list \<Rightarrow> nat list" where
  "waits [] = []"
| "waits (Wait d # es) = d # waits es"
| "waits (e # es) = waits es"

fun calls :: "event list \<Rightarrow> request list" where
  "calls [] = []"
| "calls (CallAPI r # es) = r # calls es"
| "calls (e # es) = calls es"

text \<open>The wait of attempt \<open>a\<close>, as \<open>pollForResult\<close> computes it.\<close>

definition delayOf :: "nat \<Rightarrow> nat" where
  "delayOf a = delays ! min a (length delays - 1)"

text \<open>The events of \<open>n\<close> successive attempts from attempt \<open>a\<close>: a wait, then a poll.\<close>

fun poll_events :: "string option \<Rightarrow> string \<Rightarrow> nat \<Rightarrow> nat \<Rightarrow> event list" where
  "poll_events cid mid a 0 = []"
| "poll_events cid mid a (Suc n) =
     Wait (delays ! min a (length delays - 1)) # CallAPI (Poll_result cid mid)
       # poll_events cid mid (Suc a) n"

text \<open>A status that is not terminal: \<open>pollForResult\<close> polls again.\<close>

definition keeps_polling :: "poll_data \<Rightarrow> bool" where
  "keeps_polling r = (status r \<noteq> ''COMPLETED'' \<and> status r \<noteq> ''FAILED'')"

text \<open>The state after the wait and the poll of attempt \<open>a\<close>.\<close>

definition poll_once :: "relay \<Rightarrow> string \<Rightarrow> nat \<Rightarrow> genie_chat \<Rightarrow> genie_chat" where
  "poll_once env mid a s =
     s\<lparr>clock := clock s + delays ! min a (length delays - 1)
                 + latency env (Poll_result (conversationId s) mid),
       trace := trace s @ poll_events (conversationId s) mid a 1\<rparr>"

text \<open>The document \<open>saveState\<close> writes, and the turn \<open>addMessage\<close> pushes.\<close>

definition document :: "genie_chat \<Rightarrow> saved_state" where
  "document s = \<lparr>saved_conversationId = conversationId s,
                  saved_messages = Some (slice_last 20 (messages s))\<rparr>"

definition new_turn :: "string \<Rightarrow> string \<Rightarrow> genie_chat \<Rightarrow> turn" where
  "new_turn r c s = \<lparr>role = r, content = c, timestamp = clock s\<rparr>"

subsection \<open>Example runs\<close>

definition executing :: poll_data where
  "executing = \<lparr>status = ''EXECUTING'', error = None, attachments = None\<rparr>"

definition championships :: genie_query_result where
  "championships =
     \<lparr>data_array = Some [[CellString ''Lewis Hamilton'', CellNumber 7],
                         [CellString ''<script>alert(1)</script>'', CellNull]],
      schema = Some [\<lparr>col_name = ''driver'', col_type = ''STRING''\<rparr>,
                     \<lparr>col_name = ''titles'', col_type = ''LONG''\<rparr>],
      row_count = Some 2, truncated = False\<rparr>"

definition completed :: poll_data where
  "completed =
     \<lparr>status = ''COMPLETED'', error = None,
      attachments = Some [\<lparr>att_query = Some \<lparr>query = Some ''SELECT driver, titles FROM f1'',
                                                query_result = Some championships\<rparr>,
                           att_text = None\<rparr>]\<rparr>"

text \<open>A relay whose first four polls answer EXECUTING and whose fifth answers COMPLETED.\<close>

definition relay_slow :: relay where
  "relay_slow =
     \<lparr>start_conversation = Inr (Some ''c1''),
      send_message = (\<lambda>cid c. Inr \<lparr>message_id = ''m1'', message_status = ''EXECUTING''\<rparr>),
      poll_result = (\<lambda>n. Inr (if n < 4 then executing else completed)),
      latency = (\<lambda>req. 40)\<rparr>"

text \<open>A relay that never answers with a terminal status.\<close>

definition relay_stuck :: relay where
  "relay_stuck = relay_slow\<lparr>poll_result := (\<lambda>n. Inr executing)\<rparr>"

definition asking :: genie_chat where
  "asking = (constructed NoItem 1000)\<lparr>input_value := ''  Who won the most championships? ''\<rparr>"

subsection \<open>What a rendered table is made of\<close>

text \<open>The header cells of the columns, and the cells of one row, each inside its own \<open>td\<close>.\<close>

definition headerHtml :: "column list \<Rightarrow> string" where
  "headerHtml cols = concat (map (\<lambda>col. ''<th>'' @ escapeHtml (col_name col) @ ''</th>'') cols)"

definition rowHtml :: "column list \<Rightarrow> cell list \<Rightarrow> string" where
  "rowHtml cols row =
     concat (map (\<lambda>(c, j). renderCell (col_type (cols ! j)) c) (zip row [0..<length row]))"

text \<open>
  The rows \<open>displayResult\<close> finds for the table of an attachment (none when \<open>query\<close>,
  \<open>query_result\<close> or \<open>data_array\<close> is missing), and its generated SQL.
\<close>

definition tableRows :: "attachment \<Rightarrow> cell list list" where
  "tableRows att =
     (case att_query att of
        None \<Rightarrow> []
      | Some q \<Rightarrow>
          (case query_result q of
             None \<Rightarrow> []
           | Some queryResult \<Rightarrow>
               (case data_array queryResult of None \<Rightarrow> [] | Some rows \<Rightarrow> rows)))"

definition sqlText :: "attachment \<Rightarrow> string option" where
  "sqlText att = (case att_query att of None \<Rightarrow> None | Some q \<Rightarrow> query q)"

subsection \<open>More example states and answers\<close>

text \<open>Inputs that are too short and too long.\<close>

definition too_short :: genie_chat where
  "too_short = (constructed NoItem 1000)\<lparr>input_value := ''  hi  ''\<rparr>"

definition too_long :: genie_chat where
  "too_long = (constructed NoItem 1000)\<lparr>input_value := replicate 1001 (CHR ''a'')\<rparr>"

text \<open>Completed answers: an explanation carrying markup, an explanation alone, a table
  without its schema, and a row wider than its schema.\<close>

definition injected :: poll_data where
  "injected =
     \<lparr>status = ''COMPLETED'', error = None,
      attachments = Some [\<lparr>att_query = None,
                           att_text = Some ''<img src=x onerror=alert(1)>''\<rparr>]\<rparr>"

definition narrative_only :: poll_data where
  "narrative_only =
     \<lparr>status = ''COMPLETED'', error = None,
      attachments = Some [\<lparr>att_query = None,
                           att_text = Some ''Hamilton and Schumacher share the record.''\<rparr>]\<rparr>"

definition no_schema :: poll_data where
  "no_schema =
     \<lparr>status = ''COMPLETED'', error = None,
      attachments = Some [\<lparr>att_query = Some \<lparr>query = None,
          query_result = Some \<lparr>data_array = Some [[CellString ''Lewis Hamilton'']],
                                schema = None, row_count = Some 1, truncated = False\<rparr>\<rparr>,
        att_text = None\<rparr>]\<rparr>"

definition wide_row :: poll_data where
  "wide_row =
     \<lparr>status = ''COMPLETED'', error = None,
      attachments = Some [\<lparr>att_query = Some \<lparr>query = None,
          query_result = Some \<lparr>data_array = Some [[CellString ''Lewis Hamilton'', CellNumber 7]],
                                schema = Some [\<lparr>col_name = ''driver'', col_type = ''STRING''\<rparr>],
                                row_count = Some 1, truncated = False\<rparr>\<rparr>,
        att_text = None\<rparr>]\<rparr>"

subsection \<open>What a submission leaves behind\<close>

text \<open>The stored document is the one \<open>saveState\<close> would write for the current state.\<close>

definition synced :: "genie_chat \<Rightarrow> bool" where
  "synced s = (localStorage s = Item (document s))"

text \<open>
  From \<open>s\<close> to \<open>s'\<close> at most \<open>n\<close> turns were added to the history, all of the assistant, and the
  trace grew; the conversation and the loading flag are as before and the stored document
  has kept up with the history.
\<close>

definition replies :: "nat \<Rightarrow> genie_chat \<Rightarrow> genie_chat \<Rightarrow> bool" where
  "replies n s s' =
     (\<exists>ms evs. length ms \<le> n \<and> (\<forall>t\<in>set ms. role t = ''assistant'')
        \<and> messages s' = messages s @ ms \<and> trace s' = trace s @ evs
        \<and> conversationId s' = conversationId s \<and> isLoading s' = isLoading s
        \<and> (synced s \<longrightarrow> synced s'))"

text \<open>A relay that cannot start a conversation.\<close>

definition relay_down :: relay where
  "relay_down = relay_slow\<lparr>start_conversation := Inl (Error ''Server error: 503'')\<rparr>"

text \<open>
  A first question has failed, leaving its error notice with the retry button on the page;
  \<open>handleSend\<close> has then accepted a second question, which has reached its first call of the
  relay.
\<close>

definition in_flight :: genie_chat where
  "in_flight =
     sendMessage_begin ''Who won in 1999?''
       ((handleSend relay_down asking)\<lparr>input_value := [], sendBtn_disabled := True,
                                         lastQuery := Some ''Who won in 1999?''\<rparr>)"

text \<open>The requests that are polls, and the message \<open>pollForResult\<close> throws at the hard stop.\<close>

fun is_poll :: "request \<Rightarrow> bool" where
  "is_poll (Poll_result cid mid) = True"
| "is_poll r = False"

definition timeoutMessage :: string where
  "timeoutMessage = ''Query timeout - Genie took too long to respond. This might be a complex query.''"

section \<open>Properties\<close>

subsection \<open>Effects of the basic steps\<close>

lemma emit_fields [simp]:
  "conversationId (emit e s) = conversationId s"
  "messages (emit e s) = messages s"
  "isLoading (emit e s) = isLoading s"
  "lastQuery (emit e s) = lastQuery s"
  "input_value (emit e s) = input_value s"
  "sendBtn_disabled (emit e s) = sendBtn_disabled s"
  "localStorage (emit e s) = localStorage s"
  "clock (emit e s) = clock s"
  "trace (emit e s) = trace s @ [e]"
  by (simp_all add: emit_def)

lemma saveState_fields [simp]:
  "conversationId (saveState s) = conversationId s"
  "messages (saveState s) = messages s"
  "isLoading (saveState s) = isLoading s"
  "lastQuery (saveState s) = lastQuery s"
  "input_value (saveState s) = input_value s"
  "sendBtn_disabled (saveState s) = sendBtn_disabled s"
  "localStorage (saveState s) = Item (document s)"
  "clock (saveState s) = clock s"
  "trace (saveState s) = trace s @ [SetItem (document s)]"
  by (simp_all add: saveState_def document_def Let_def)

lemma addMessage_fields [simp]:
  "conversationId (addMessage r c s) = conversationId s"
  "messages (addMessage r c s) = messages s @ [new_turn r c s]"
  "isLoading (addMessage r c s) = isLoading s"
  "lastQuery (addMessage r c s) = lastQuery s"
  "input_value (addMessage r c s) = input_value s"
  "sendBtn_disabled (addMessage r c s) = sendBtn_disabled s"
  "clock (addMessage r c s) = clock s"
  "trace (addMessage r c s) =
     trace s @ [AppendMessage r (messageNode c), SetItem (document (addMessage r c s))]"
  "localStorage (addMessage r c s) = Item (document (addMessage r c s))"
  by (simp_all add: addMessage_def Let_def new_turn_def document_def)

lemma callAPI_fields [simp]:
  "fst (callAPI env req out s) = out"
  "conversationId (snd (callAPI env req out s)) = conversationId s"
  "messages (snd (callAPI env req out s)) = messages s"
  "isLoading (snd (callAPI env req out s)) = isLoading s"
  "lastQuery (snd (callAPI env req out s)) = lastQuery s"
  "input_value (snd (callAPI env req out s)) = input_value s"
  "sendBtn_disabled (snd (callAPI env req out s)) = sendBtn_disabled s"
  "localStorage (snd (callAPI env req out s)) = localStorage s"
  "clock (snd (callAPI env req out s)) = clock s + latency env req"
  "trace (snd (callAPI env req out s)) = trace s @ [CallAPI req]"
  by (simp_all add: callAPI_def)

lemma callAPI_eq: "callAPI env req out s = (out, snd (callAPI env req out s))"
  by (simp add: callAPI_def)

lemma waits_append: "waits (xs @ ys) = waits xs @ waits ys"
  by (induction xs rule: waits.induct) simp_all

lemma calls_append: "calls (xs @ ys) = calls xs @ calls ys"
  by (induction xs rule: calls.induct) simp_all

subsection \<open>The polling loop\<close>

declare pollForResult.simps [simp del]

lemma pollForResult_stop:
  "maxAttempts \<le> a \<Longrightarrow> snd (pollForResult env mid a s) = s"
  by (simp add: pollForResult.simps)

text \<open>One attempt of the loop, when the budget is not used up.\<close>

lemma pollForResult_step:
  assumes "a < maxAttempts"
  shows "pollForResult env mid a s =
     (case poll_result env a of
        Inl e \<Rightarrow> (Inl e, poll_once env mid a s)
      | Inr r \<Rightarrow>
          if keeps_polling r then pollForResult env mid (a + 1) (poll_once env mid a s)
          else if status r = ''COMPLETED'' then (Inr r, poll_once env mid a s)
          else (Inl (Error (errorMessage (error r))), poll_once env mid a s))"
  using assms
  by (subst pollForResult.simps)
     (auto simp: poll_once_def callAPI_def wait_def emit_def keeps_polling_def Let_def
           split: sum.splits)

text \<open>
  Whatever the relay answers, a run from attempt \<open>a\<close> changes only the clock and the trace,
  and what it adds to the trace is some number of attempts within the budget.
\<close>

lemma pollForResult_frame:
  "\<exists>n c. a + n \<le> max a maxAttempts \<and>
     snd (pollForResult env mid a s) =
       s\<lparr>clock := c, trace := trace s @ poll_events (conversationId s) mid a n\<rparr>"
proof (induction "maxAttempts - a" arbitrary: a s)
  case 0
  then have "snd (pollForResult env mid a s) = s"
    by (simp add: pollForResult_stop)
  then have "a + 0 \<le> max a maxAttempts \<and> snd (pollForResult env mid a s) =
       s\<lparr>clock := clock s, trace := trace s @ poll_events (conversationId s) mid a 0\<rparr>"
    by simp
  then show ?case by blast
next
  case (Suc m)
  then have lt: "a < maxAttempts" by simp
  let ?s1 = "poll_once env mid a s"
  have one: "a + 1 \<le> max a maxAttempts \<and>
       ?s1 = s\<lparr>clock := clock ?s1, trace := trace s @ poll_events (conversationId s) mid a 1\<rparr>"
    using lt by (simp add: poll_once_def)
  have more: "\<exists>n c. a + n \<le> max a maxAttempts \<and>
       snd (pollForResult env mid (a + 1) ?s1) =
         s\<lparr>clock := c, trace := trace s @ poll_events (conversationId s) mid a n\<rparr>"
  proof -
    from Suc have "m = maxAttempts - (a + 1)" by simp
    from Suc.hyps(1) [OF this, of ?s1]
    obtain n c where n: "a + 1 + n \<le> max (a + 1) maxAttempts"
      and eq: "snd (pollForResult env mid (a + 1) ?s1) =
         ?s1\<lparr>clock := c, trace := trace ?s1 @ poll_events (conversationId ?s1) mid (a + 1) n\<rparr>"
      by blast
    have "snd (pollForResult env mid (a + 1) ?s1) =
         s\<lparr>clock := c, trace := trace s @ poll_events (conversationId s) mid a (Suc n)\<rparr>"
      using eq by (simp add: poll_once_def)
    moreover have "a + Suc n \<le> max a maxAttempts" using n lt by simp
    ultimately show ?thesis by blast
  qed
  show ?case
  proof (cases "poll_result env a")
    case (Inl e)
    then have "snd (pollForResult env mid a s) = ?s1"
      by (simp add: pollForResult_step [OF lt])
    with one show ?thesis by metis
  next
    case (Inr r)
    show ?thesis
    proof (cases "keeps_polling r")
      case True
      then have "pollForResult env mid a s = pollForResult env mid (a + 1) ?s1"
        using Inr by (simp add: pollForResult_step [OF lt])
      with more show ?thesis by simp
    next
      case False
      then have "snd (pollForResult env mid a s) = ?s1"
        using Inr by (simp add: pollForResult_step [OF lt])
      with one show ?thesis by metis
    qed
  qed
qed

lemma delayOf_values:
  "delayOf k = (if k = 0 then 500 else if k = 1 then 1000 else if k = 2 then 2000 else 5000)"
proof -
  have "k = 0 \<or> k = 1 \<or> k = 2 \<or> 3 \<le> k" by arith
  then show ?thesis
    by (auto simp: delayOf_def delays_def min_def numeral_2_eq_2)
qed

lemma waits_poll_events:
  "waits (poll_events cid mid a n) = map delayOf [a..<a + n]"
  by (induction n arbitrary: a) (simp_all add: upt_rec delayOf_def)

lemma calls_poll_events:
  "calls (poll_events cid mid a n) = replicate n (Poll_result cid mid)"
  by (induction n arbitrary: a) simp_all

lemma schedule_sum:
  "3 \<le> k \<Longrightarrow> sum_list (map delayOf [0..<k]) = 3500 + 5000 * (k - 3)"
proof (induction k)
  case 0
  then show ?case by simp
next
  case (Suc k)
  show ?case
  proof (cases "k = 2")
    case True
    have "[0..<Suc 2] = [0, 1, 2]" by (simp add: upt_rec)
    then show ?thesis using True by (simp add: delayOf_values)
  next
    case False
    with Suc.prems have "3 \<le> k" by simp
    with Suc.IH show ?thesis by (simp add: delayOf_values)
  qed
qed


subsection \<open>C1: the backoff schedule\<close>




subsection \<open>C8: the cells of a rendered table\<close>

lemma renderHeader_eq: "renderHeader cols html = html @ headerHtml cols"
  by (induction cols arbitrary: html) (simp_all add: headerHtml_def)

lemma renderCells_eq:
  "i + length row \<le> length cols \<Longrightarrow>
   renderCells cols row i html =
     Inr (html @ concat (map (\<lambda>(c, j). renderCell (col_type (cols ! j)) c)
                          (zip row [i..<i + length row])))"
proof (induction row arbitrary: i html)
  case Nil
  then show ?case by simp
next
  case (Cons c row)
  then have lt: "i < length cols" and le: "Suc i + length row \<le> length cols" by simp_all
  have upt: "[i..<i + length (c # row)] = i # [Suc i..<Suc i + length row]"
    by (simp add: upt_conv_Cons del: upt_Suc)
  show ?case
    unfolding upt using lt Cons.IH [OF le] by simp
qed

lemma renderRows_eq:
  "\<forall>row\<in>set rows. length row \<le> length cols \<Longrightarrow>
   renderRows cols rows html =
     Inr (html @ concat (map (\<lambda>row. ''<tr>'' @ rowHtml cols row @ ''</tr>'') rows))"
proof (induction rows arbitrary: html)
  case Nil
  then show ?case by simp
next
  case (Cons row rows)
  then have "0 + length row \<le> length cols" by simp
  from renderCells_eq [OF this]
  have "renderCells cols row 0 (html @ ''<tr>'') = Inr (html @ ''<tr>'' @ rowHtml cols row)"
    by (simp add: rowHtml_def)
  with Cons show ?case by simp
qed

lemma escapeHtml_no_markup:
  "CHR ''<'' \<notin> set (escapeHtml t) \<and> CHR ''>'' \<notin> set (escapeHtml t)"
  by (induction t) (auto simp: escapeHtml_def escapeChar_def)

lemma escapeHtml_plain: "escapeHtml ''NULL'' = ''NULL''"
  by (simp add: escapeHtml_def escapeChar_def)

text \<open>
  C8. When no row is wider than the schema, \<open>renderDataTable\<close> returns the table whose body
  holds, row by row and cell by cell, one \<open>td\<close> per cell; the \<open>td\<close> of a \<open>null\<close> cell holds
  the text NULL, and the \<open>td\<close> of a string cell holds the escaped string, in which no
  angle bracket is left, so that \<open><script>\<close> becomes \<open>&lt;script&gt;\<close>.
\<close>

theorem table_cells_escaped:
  assumes "data_array qr = Some rows" and "rows \<noteq> []" and "schema qr = Some cols"
    and "\<forall>row\<in>set rows. length row \<le> length cols"
  shows "renderDataTable qr =
       Inr (tableOpen @ ''<thead><tr>'' @ headerHtml cols @ ''</tr></thead>'' @ ''<tbody>''
            @ concat (map (\<lambda>row. ''<tr>'' @ rowHtml cols row @ ''</tr>'') rows)
            @ ''</tbody>'' @ ''</table></div>''
            @ (if truncated qr then truncatedNote (length rows) (row_count qr) else []))
     \<and> (\<forall>ty. renderCell ty CellNull = ''<td class='' @ [CHR 0x22] @ className ty @ [CHR 0x22] @ ''>NULL</td>'')
     \<and> (\<forall>ty t. renderCell ty (CellString t)
            = ''<td class='' @ [CHR 0x22] @ className ty @ [CHR 0x22] @ ''>'' @ escapeHtml t @ ''</td>''
          \<and> CHR ''<'' \<notin> set (escapeHtml t) \<and> CHR ''>'' \<notin> set (escapeHtml t))
     \<and> escapeHtml ''<script>'' = ''&lt;script&gt;''"
proof -
  have "renderDataTable qr =
       Inr (tableOpen @ ''<thead><tr>'' @ headerHtml cols @ ''</tr></thead>'' @ ''<tbody>''
            @ concat (map (\<lambda>row. ''<tr>'' @ rowHtml cols row @ ''</tr>'') rows)
            @ ''</tbody>'' @ ''</table></div>''
            @ (if truncated qr then truncatedNote (length rows) (row_count qr) else []))"
    using assms(1,2,3) renderRows_eq [OF assms(4)]
    by (simp add: renderDataTable_def renderHeader_eq Let_def)
  moreover have "renderCell ty CellNull
      = ''<td class='' @ [CHR 0x22] @ className ty @ [CHR 0x22] @ ''>NULL</td>''" for ty
    by (simp add: renderCell_def escapeHtml_plain)
  moreover have "renderCell ty (CellString t)
      = ''<td class='' @ [CHR 0x22] @ className ty @ [CHR 0x22] @ ''>'' @ escapeHtml t @ ''</td>''" for ty t
    by (simp add: renderCell_def)
  moreover have "escapeHtml ''<script>'' = ''&lt;script&gt;''"
    by (simp add: escapeHtml_def escapeChar_def)
  ultimately show ?thesis using escapeHtml_no_markup by simp
qed

lemma championships_row:
  "rowHtml [\<lparr>col_name = ''driver'', col_type = ''STRING''\<rparr>, \<lparr>col_name = ''titles'', col_type = ''LONG''\<rparr>]
     [CellString ''<script>alert(1)</script>'', CellNull]
   = ''<td class='' @ [CHR 0x22, CHR 0x22] @ ''>&lt;script&gt;alert(1)&lt;/script&gt;</td>''
     @ ''<td class='' @ [CHR 0x22] @ ''numeric'' @ [CHR 0x22] @ ''>NULL</td>''"
  by (simp add: rowHtml_def renderCell_def className_def numericTypes_def escapeHtml_def
      escapeChar_def upt_rec)

theorem table_cells_escaped_witness:
  "data_array championships
     = Some [[CellString ''Lewis Hamilton'', CellNumber 7],
             [CellString ''<script>alert(1)</script>'', CellNull]]
   \<and> schema championships
     = Some [\<lparr>col_name = ''driver'', col_type = ''STRING''\<rparr>, \<lparr>col_name = ''titles'', col_type = ''LONG''\<rparr>]
   \<and> (\<exists>before after.
        renderDataTable championships
          = Inr (before @ ''<tr><td class='' @ [CHR 0x22, CHR 0x22]
                 @ ''>&lt;script&gt;alert(1)&lt;/script&gt;</td>''
                 @ ''<td class='' @ [CHR 0x22] @ ''numeric'' @ [CHR 0x22] @ ''>NULL</td></tr>'' @ after))"
proof -
  let ?rows = "[[CellString ''Lewis Hamilton'', CellNumber 7],
                [CellString ''<script>alert(1)</script>'', CellNull]]"
  let ?cols = "[\<lparr>col_name = ''driver'', col_type = ''STRING''\<rparr>, \<lparr>col_name = ''titles'', col_type = ''LONG''\<rparr>]"
  have d: "data_array championships = Some ?rows" by (simp add: championships_def)
  have n: "?rows \<noteq> []" by simp
  have c: "schema championships = Some ?cols" by (simp add: championships_def)
  have w: "\<forall>row\<in>set ?rows. length row \<le> length ?cols" by simp
  from table_cells_escaped [OF d n c w]
  have "renderDataTable championships =
       Inr ((tableOpen @ ''<thead><tr>'' @ headerHtml ?cols @ ''</tr></thead>'' @ ''<tbody>''
             @ ''<tr>'' @ rowHtml ?cols [CellString ''Lewis Hamilton'', CellNumber 7] @ ''</tr>'')
            @ ''<tr>'' @ rowHtml ?cols [CellString ''<script>alert(1)</script>'', CellNull] @ ''</tr>''
            @ (''</tbody>'' @ ''</table></div>''))"
    by (simp add: championships_def)
  then have "renderDataTable championships =
       Inr ((tableOpen @ ''<thead><tr>'' @ headerHtml ?cols @ ''</tr></thead>'' @ ''<tbody>''
             @ ''<tr>'' @ rowHtml ?cols [CellString ''Lewis Hamilton'', CellNumber 7] @ ''</tr>'')
            @ ''<tr><td class='' @ [CHR 0x22, CHR 0x22]
                 @ ''>&lt;script&gt;alert(1)&lt;/script&gt;</td>''
                 @ ''<td class='' @ [CHR 0x22] @ ''numeric'' @ [CHR 0x22] @ ''>NULL</td></tr>''
            @ (''</tbody>'' @ ''</table></div>''))"
    by (simp only: championships_row) simp
  then have "\<exists>before after.
        renderDataTable championships
          = Inr (before @ ''<tr><td class='' @ [CHR 0x22, CHR 0x22]
                 @ ''>&lt;script&gt;alert(1)&lt;/script&gt;</td>''
                 @ ''<td class='' @ [CHR 0x22] @ ''numeric'' @ [CHR 0x22] @ ''>NULL</td></tr>'' @ after)"
    by blast
  with d c show ?thesis by simp
qed

subsection \<open>C6: input that fails validation\<close>

text \<open>
  C6. When the trimmed input is shorter than 5 or longer than 1000 characters,
  \<open>handleSend\<close> only raises an alert: the state is otherwise unchanged and no request is
  sent to the relay.
\<close>

theorem handleSend_invalid_input:
  assumes "length (trim (input_value s)) < 5 \<or> 1000 < length (trim (input_value s))"
  shows "(\<exists>msg. handleSend env s = s\<lparr>trace := trace s @ [Alert msg]\<rparr>)
       \<and> calls (trace (handleSend env s)) = calls (trace s)"
  using assms by (auto simp: handleSend_def Let_def emit_def calls_append)

lemma trim_unchanged:
  assumes "xs \<noteq> []" and "\<not> isWhiteSpace (hd xs)" and "\<not> isWhiteSpace (last xs)"
  shows "trim xs = xs"
proof -
  have "dropWhile isWhiteSpace xs = xs"
    using assms(1,2) by (cases xs) simp_all
  moreover have "dropWhile isWhiteSpace (rev xs) = rev xs"
    using assms(1,3) by (cases "rev xs") (simp_all add: last_rev [symmetric] del: last_rev)
  ultimately show ?thesis by (simp add: trim_def)
qed

lemma trim_too_long: "trim (input_value too_long) = replicate 1001 (CHR ''a'')"
proof -
  have "replicate 1001 (CHR ''a'') \<noteq> []" by simp
  moreover have "hd (replicate 1001 (CHR ''a'')) = CHR ''a''" by simp
  moreover have "last (replicate 1001 (CHR ''a'')) = CHR ''a''" by simp
  ultimately have "trim (replicate 1001 (CHR ''a'')) = replicate 1001 (CHR ''a'')"
    by (intro trim_unchanged) (simp_all add: isWhiteSpace_def)
  then show ?thesis by (simp add: too_long_def)
qed

lemma trim_too_short: "trim (input_value too_short) = ''hi''"
  by (simp add: too_short_def trim_def isWhiteSpace_def)

theorem handleSend_invalid_input_witness:
  "length (trim (input_value too_short)) < 5
   \<and> handleSend relay_slow too_short
       = too_short\<lparr>trace := [Alert ''Please enter at least 5 characters'']\<rparr>
   \<and> calls (trace (handleSend relay_slow too_short)) = []
   \<and> 1000 < length (trim (input_value too_long))
   \<and> handleSend relay_slow too_long
       = too_long\<lparr>trace := [Alert ''Message is too long (max 1000 characters)'']\<rparr>
   \<and> calls (trace (handleSend relay_slow too_long)) = []"
proof -
  have short: "length (trim (input_value too_short)) < 5 \<or> 1000 < length (trim (input_value too_short))"
    by (simp add: trim_too_short)
  have long: "length (trim (input_value too_long)) < 5 \<or> 1000 < length (trim (input_value too_long))"
    by (simp add: trim_too_long)
  have "trace too_short = []" "trace too_long = []"
    by (simp_all add: too_short_def too_long_def constructed_def)
  then show ?thesis
    using handleSend_invalid_input [OF short, of relay_slow]
      handleSend_invalid_input [OF long, of relay_slow]
    by (simp add: handleSend_def Let_def trim_too_short trim_too_long emit_def)
qed

subsection \<open>The guard of handleSend\<close>

text \<open>
  While \<open>isLoading\<close> is set, \<open>handleSend\<close> leaves the history, the stored document and the flag
  as they are and sends nothing to the relay; at most it raises the alert of an invalid
  input.
\<close>

lemma handleSend_while_loading:
  assumes "isLoading s"
  shows "(handleSend env s = s \<or> (\<exists>msg. handleSend env s = s\<lparr>trace := trace s @ [Alert msg]\<rparr>))
       \<and> messages (handleSend env s) = messages s
       \<and> localStorage (handleSend env s) = localStorage s
       \<and> isLoading (handleSend env s)
       \<and> calls (trace (handleSend env s)) = calls (trace s)"
  using assms by (auto simp: handleSend_def Let_def emit_def calls_append)

subsection \<open>C7: saving and reloading\<close>

lemma restoreMessages_eq:
  "restoreMessages ms s =
     s\<lparr>trace := trace s @ map (\<lambda>msg. AppendMessage (role msg) (messageNode (content msg))) ms\<rparr>"
  by (induction ms arbitrary: s) (simp_all add: emit_def)

lemma slice_last_suffix: "\<exists>older. xs = older @ slice_last n xs"
  unfolding slice_last_def by (metis append_take_drop_id)

text \<open>
  C7. A widget constructed over the storage that \<open>saveState\<close> wrote loads the same
  \<open>conversationId\<close> and, as its history, the last 20 turns of the saved history in their
  order.
\<close>

theorem save_then_load:
  "conversationId (loadState (constructed (localStorage (saveState s)) now)) = conversationId s
   \<and> messages (loadState (constructed (localStorage (saveState s)) now)) = slice_last 20 (messages s)
   \<and> (\<exists>older. messages s = older @ slice_last 20 (messages s))
   \<and> length (slice_last 20 (messages s)) = min 20 (length (messages s))"
proof -
  have "conversationId (loadState (constructed (localStorage (saveState s)) now)) = conversationId s"
    by (simp add: loadState_def constructed_def document_def restoreMessages_eq Let_def)
  moreover have "messages (loadState (constructed (localStorage (saveState s)) now))
      = slice_last 20 (messages s)"
    by (simp add: loadState_def constructed_def document_def restoreMessages_eq Let_def)
  moreover have "length (slice_last 20 (messages s)) = min 20 (length (messages s))"
    by (simp add: slice_last_def)
  ultimately show ?thesis using slice_last_suffix by blast
qed

subsection \<open>C3: the explanation is inserted as it came\<close>

text \<open>
  C3 fails on the code. The explanation of an attachment is handed to \<open>addMessage\<close>
  unescaped, and \<open>addMessage\<close> assigns any content with a \<open><\<close> to \<open>innerHTML\<close>: the markup sent
  by the service becomes part of the page.
\<close>

theorem narrative_inserted_unescaped:
  "hd (trace (snd (displayResult injected asking)))
     = AppendMessage ''assistant'' (InnerHTML ''<img src=x onerror=alert(1)>'')
   \<and> escapeHtml ''<img src=x onerror=alert(1)>'' = ''&lt;img src=x onerror=alert(1)&gt;''"
  by (simp add: displayResult_def injected_def showTable_def showText_def showSql_def
      messageNode_def asking_def constructed_def escapeHtml_def escapeChar_def Let_def)

subsection \<open>C10: a table without a usable schema\<close>

text \<open>
  C10 fails on the code. With rows but no schema, and with a row wider than the schema,
  \<open>renderDataTable\<close> throws; \<open>displayResult\<close> passes the error on and adds no message.
\<close>

theorem malformed_table_throws:
  "displayResult no_schema asking = (Some (TypeError ''columns''), asking)
   \<and> displayResult wide_row asking = (Some (TypeError ''type''), asking)"
  by (simp add: displayResult_def no_schema_def wide_row_def showTable_def renderDataTable_def
      renderHeader_eq Let_def)

subsection \<open>C9: an explanation without a table\<close>

lemma showTable_no_rows:
  "tableRows att = [] \<Longrightarrow> showTable att s = (Inr False, s)"
  by (simp add: tableRows_def showTable_def split: option.splits)

text \<open>
  C9, as the code has it. When the first attachment has no table rows and an explanation
  that escaping leaves as it is, \<open>displayResult\<close> appends one assistant turn holding the
  explanation, then one holding the generated SQL if there is any, then one holding the
  notice that no data was returned.
\<close>

theorem narrative_without_table:
  assumes "attachments result = Some (att # atts)" and "tableRows att = []"
    and "att_text att = Some narrative" and "narrative \<noteq> []"
    and "escapeHtml narrative = narrative"
  shows "fst (displayResult result s) = None
     \<and> messages (snd (displayResult result s))
        = messages s
          @ [\<lparr>role = ''assistant'', content = escapeHtml narrative, timestamp = clock s\<rparr>]
          @ (case sqlText att of
               None \<Rightarrow> []
             | Some q \<Rightarrow>
                 if q = [] then []
                 else [\<lparr>role = ''assistant'', content = sqlHTML q, timestamp = clock s\<rparr>])
          @ [\<lparr>role = ''assistant'', content = noDataNotice, timestamp = clock s\<rparr>]"
  using assms
  by (simp add: displayResult_def showTable_no_rows showText_def showSql_def sqlText_def
      new_turn_def Let_def split: option.splits)

theorem narrative_without_table_witness:
  "attachments narrative_only
     = Some [\<lparr>att_query = None, att_text = Some ''Hamilton and Schumacher share the record.''\<rparr>]
   \<and> tableRows \<lparr>att_query = None, att_text = Some ''Hamilton and Schumacher share the record.''\<rparr> = []
   \<and> escapeHtml ''Hamilton and Schumacher share the record.''
       = ''Hamilton and Schumacher share the record.''
   \<and> messages (snd (displayResult narrative_only asking))
     = [\<lparr>role = ''assistant'', content = ''Hamilton and Schumacher share the record.'', timestamp = 1000\<rparr>,
        \<lparr>role = ''assistant'', content = noDataNotice, timestamp = 1000\<rparr>]"
proof -
  let ?att = "\<lparr>att_query = None, att_text = Some ''Hamilton and Schumacher share the record.''\<rparr>"
  have a: "attachments narrative_only = Some (?att # [])" by (simp add: narrative_only_def)
  have t: "tableRows ?att = []" by (simp add: tableRows_def)
  have n: "att_text ?att = Some ''Hamilton and Schumacher share the record.''" by simp
  have e: "''Hamilton and Schumacher share the record.'' \<noteq> []" by simp
  have x: "escapeHtml ''Hamilton and Schumacher share the record.''
       = ''Hamilton and Schumacher share the record.''"
    by (simp add: escapeHtml_def escapeChar_def)
  from narrative_without_table [OF a t n e x, of asking] a t x
  show ?thesis by (simp add: sqlText_def asking_def constructed_def)
qed

text \<open>C9 as stated fails: the explanation alone makes the history grow by two turns.\<close>

theorem narrative_only_counterexample:
  "length (messages (snd (displayResult narrative_only asking))) \<noteq> length (messages asking) + 1"
  by (simp add: displayResult_def narrative_only_def showTable_def showText_def showSql_def Let_def)


subsection \<open>C4: the question enters the history before the relay is called\<close>

lemma document_cong:
  "conversationId s' = conversationId s \<Longrightarrow> messages s' = messages s \<Longrightarrow> document s' = document s"
  by (simp add: document_def)

lemma replies_refl: "replies 0 s s"
  by (simp add: replies_def)

lemma replies_trans:
  assumes "replies n s s'" and "replies m s' s''"
  shows "replies (n + m) s s''"
proof -
  from assms(1) obtain ms evs where 1: "length ms \<le> n" "\<forall>t\<in>set ms. role t = ''assistant''"
    "messages s' = messages s @ ms" "trace s' = trace s @ evs"
    "conversationId s' = conversationId s" "isLoading s' = isLoading s" "synced s \<longrightarrow> synced s'"
    unfolding replies_def by blast
  from assms(2) obtain ms' evs' where 2: "length ms' \<le> m" "\<forall>t\<in>set ms'. role t = ''assistant''"
    "messages s'' = messages s' @ ms'" "trace s'' = trace s' @ evs'"
    "conversationId s'' = conversationId s'" "isLoading s'' = isLoading s'" "synced s' \<longrightarrow> synced s''"
    unfolding replies_def by blast
  have "length (ms @ ms') \<le> n + m" using 1(1) 2(1) by simp
  moreover have "\<forall>t\<in>set (ms @ ms'). role t = ''assistant''" using 1(2) 2(2) by auto
  moreover have "messages s'' = messages s @ (ms @ ms')" using 1(3) 2(3) by simp
  moreover have "trace s'' = trace s @ (evs @ evs')" using 1(4) 2(4) by simp
  moreover have "conversationId s'' = conversationId s" using 1(5) 2(5) by simp
  moreover have "isLoading s'' = isLoading s" using 1(6) 2(6) by simp
  moreover have "synced s \<longrightarrow> synced s''" using 1(7) 2(7) by simp
  ultimately show ?thesis unfolding replies_def by blast
qed

lemma replies_mono: "replies n s s' \<Longrightarrow> n \<le> m \<Longrightarrow> replies m s s'"
  unfolding replies_def by (meson le_trans)

lemma replies_addMessage: "replies 1 s (addMessage ''assistant'' c s)"
proof -
  have "length [new_turn ''assistant'' c s] \<le> 1" by simp
  moreover have "\<forall>t\<in>set [new_turn ''assistant'' c s]. role t = ''assistant''"
    by (simp add: new_turn_def)
  moreover have "messages (addMessage ''assistant'' c s) = messages s @ [new_turn ''assistant'' c s]"
    by simp
  moreover have "trace (addMessage ''assistant'' c s) = trace s @
      [AppendMessage ''assistant'' (messageNode c), SetItem (document (addMessage ''assistant'' c s))]"
    by simp
  moreover have "synced (addMessage ''assistant'' c s)" by (simp add: synced_def)
  ultimately show ?thesis unfolding replies_def
    by (metis addMessage_fields(1,3))
qed

lemma replies_emit: "replies 0 s (emit e s)"
  by (simp add: replies_def synced_def document_def)

lemma replies_showTable: "replies 1 s (snd (showTable att s))"
  using replies_addMessage [of s] replies_mono [OF replies_refl, of 1 s]
  by (auto simp: showTable_def split: option.splits sum.splits)

lemma showTable_no_data: "fst (showTable att s) \<noteq> Inr True \<Longrightarrow> snd (showTable att s) = s"
  by (auto simp: showTable_def split: option.splits sum.splits if_splits)

lemma replies_showText: "replies 1 s (showText att s)"
  using replies_addMessage [of s] replies_mono [OF replies_refl, of 1 s]
  by (simp add: showText_def)

lemma replies_showSql: "replies 1 s (showSql att s)"
  using replies_addMessage [of s] replies_mono [OF replies_refl, of 1 s]
  by (simp add: showSql_def split: option.splits)

lemma replies_displayResult: "replies 3 s (snd (displayResult result s))"
proof -
  have none: "replies 3 s (addMessage ''assistant'' noAttachmentNotice s)"
    using replies_mono [OF replies_addMessage, of 3] by simp
  show ?thesis
  proof (cases "attachments result")
    case None
    with none show ?thesis by (simp add: displayResult_def)
  next
    case (Some atts)
    show ?thesis
    proof (cases "length atts = 0")
      case True
      with Some none show ?thesis by (simp add: displayResult_def)
    next
      case False
      let ?att = "atts ! 0"
      obtain r s1 where st: "showTable ?att s = (r, s1)" by (cases "showTable ?att s")
      then have s1: "s1 = snd (showTable ?att s)" by simp
      show ?thesis
      proof (cases r)
        case (Inl e)
        then have "s1 = s" using showTable_no_data [of ?att s] st by simp
        then have "snd (displayResult result s) = s"
          using Some False st Inl by (simp add: displayResult_def Let_def)
        then show ?thesis using replies_mono [OF replies_refl, of 3 s] by simp
      next
        case (Inr hasData)
        let ?s3 = "showSql ?att (showText ?att s1)"
        have two: "replies 2 s1 ?s3"
          using replies_trans [OF replies_showText [of s1 ?att] replies_showSql [of "showText ?att s1" ?att]]
          by (simp add: numeral_2_eq_2)
        show ?thesis
        proof (cases hasData)
          case True
          have "replies 1 s s1" using replies_showTable [of s ?att] s1 by simp
          from replies_trans [OF this two] have "replies 3 s ?s3" by (simp add: numeral_3_eq_3 numeral_2_eq_2)
          then show ?thesis
            using Some False st Inr True by (simp add: displayResult_def Let_def)
        next
          case False2: False
          then have "s1 = s" using showTable_no_data [of ?att s] st Inr by simp
          with two have "replies 2 s ?s3" by simp
          from replies_trans [OF this replies_addMessage, of noDataNotice]
          have "replies 3 s (addMessage ''assistant'' noDataNotice ?s3)"
            by (simp add: numeral_3_eq_3 numeral_2_eq_2)
          then show ?thesis
            using Some False st Inr False2 by (simp add: displayResult_def Let_def)
        qed
      qed
    qed
  qed
qed

lemma synced_fields:
  "conversationId s' = conversationId s \<Longrightarrow> messages s' = messages s \<Longrightarrow>
   localStorage s' = localStorage s \<Longrightarrow> synced s \<Longrightarrow> synced s'"
  by (simp add: synced_def document_def)

lemma pollForResult_fields:
  "conversationId (snd (pollForResult env mid a s)) = conversationId s"
  "messages (snd (pollForResult env mid a s)) = messages s"
  "isLoading (snd (pollForResult env mid a s)) = isLoading s"
  "localStorage (snd (pollForResult env mid a s)) = localStorage s"
  "\<exists>evs. trace (snd (pollForResult env mid a s)) = trace s @ evs"
  using pollForResult_frame [of a env mid s] by auto

lemma startConversation_frame:
  "messages (snd (startConversation env s)) = messages s
   \<and> isLoading (snd (startConversation env s)) = isLoading s
   \<and> (synced s \<longrightarrow> synced (snd (startConversation env s)))
   \<and> ((fst (startConversation env s) = None \<and> trace (snd (startConversation env s)) = trace s)
        \<or> (\<exists>rest. trace (snd (startConversation env s)) = trace s @ CallAPI Start_conversation # rest))"
  by (cases "start_conversation env")
     (auto simp: startConversation_def callAPI_def synced_def document_def)

lemma sendAndPoll_frame:
  "\<exists>rest ms. trace (snd (sendAndPoll env c s)) = trace s @ CallAPI (Send_message (conversationId s) c) # rest
     \<and> length ms \<le> 3 \<and> (\<forall>t\<in>set ms. role t = ''assistant'')
     \<and> messages (snd (sendAndPoll env c s)) = messages s @ ms
     \<and> isLoading (snd (sendAndPoll env c s)) = isLoading s
     \<and> (synced s \<longrightarrow> synced (snd (sendAndPoll env c s)))"
proof -
  let ?req = "Send_message (conversationId s) c"
  let ?s1 = "emit (CallAPI ?req) (s\<lparr>clock := clock s + latency env ?req\<rparr>)"
  have s1: "trace ?s1 = trace s @ [CallAPI ?req]" "messages ?s1 = messages s"
    "isLoading ?s1 = isLoading s" "conversationId ?s1 = conversationId s"
    "localStorage ?s1 = localStorage s"
    by simp_all
  have sy1: "synced s \<longrightarrow> synced ?s1"
    by (simp add: synced_def document_def)
  show ?thesis
  proof (cases "send_message env (conversationId s) c")
    case (Inl e)
    then have "snd (sendAndPoll env c s) = ?s1"
      by (simp add: sendAndPoll_def callAPI_def)
    then have "trace (snd (sendAndPoll env c s)) = trace s @ CallAPI ?req # []"
      and "length ([] :: turn list) \<le> 3" and "\<forall>t\<in>set ([] :: turn list). role t = ''assistant''"
      and "messages (snd (sendAndPoll env c s)) = messages s @ []"
      and "isLoading (snd (sendAndPoll env c s)) = isLoading s"
      and "synced s \<longrightarrow> synced (snd (sendAndPoll env c s))"
      using s1 sy1 by simp_all
    then show ?thesis by blast
  next
    case (Inr md)
    let ?s2 = "emit ShowTyping ?s1"
    let ?p = "pollForResult env (message_id md) 0 ?s2"
    obtain evs where evs: "trace (snd ?p) = trace ?s2 @ evs"
      using pollForResult_fields(5) by blast
    have s3: "messages (snd ?p) = messages s" "isLoading (snd ?p) = isLoading s"
      "conversationId (snd ?p) = conversationId s" "localStorage (snd ?p) = localStorage s"
      by (simp_all add: pollForResult_fields)
    have t3: "trace (snd ?p) = trace s @ CallAPI ?req # ShowTyping # evs"
      using evs by simp
    have sy3: "synced s \<longrightarrow> synced (snd ?p)"
      using s3 by (simp add: synced_def document_def)
    show ?thesis
    proof (cases "fst ?p")
      case (Inl e)
      then have "snd (sendAndPoll env c s) = snd ?p"
        using Inr by (cases ?p) (simp add: sendAndPoll_def callAPI_def Let_def)
      then have "trace (snd (sendAndPoll env c s)) = trace s @ CallAPI ?req # (ShowTyping # evs)"
        and "length ([] :: turn list) \<le> 3" and "\<forall>t\<in>set ([] :: turn list). role t = ''assistant''"
        and "messages (snd (sendAndPoll env c s)) = messages s @ []"
        and "isLoading (snd (sendAndPoll env c s)) = isLoading s"
        and "synced s \<longrightarrow> synced (snd (sendAndPoll env c s))"
        using s3 t3 sy3 by simp_all
      then show ?thesis by blast
    next
      case Inr2: (Inr result)
      let ?s4 = "emit HideTyping (snd ?p)"
      have fin: "snd (sendAndPoll env c s) = snd (displayResult result ?s4)"
        using Inr Inr2 by (cases ?p) (simp add: sendAndPoll_def callAPI_def Let_def)
      from replies_displayResult [of ?s4 result]
      obtain ms evs' where r: "length ms \<le> 3" "\<forall>t\<in>set ms. role t = ''assistant''"
        "messages (snd (displayResult result ?s4)) = messages ?s4 @ ms"
        "trace (snd (displayResult result ?s4)) = trace ?s4 @ evs'"
        "isLoading (snd (displayResult result ?s4)) = isLoading ?s4"
        "synced ?s4 \<longrightarrow> synced (snd (displayResult result ?s4))"
        unfolding replies_def by blast
      have sy4: "synced s \<longrightarrow> synced ?s4"
        using sy3 by (simp add: synced_def document_def)
      have "trace (snd (sendAndPoll env c s))
          = trace s @ CallAPI ?req # (ShowTyping # evs @ HideTyping # evs')"
        using fin r(4) t3 by simp
      moreover have "messages (snd (sendAndPoll env c s)) = messages s @ ms"
        using fin r(3) s3 by simp
      moreover have "isLoading (snd (sendAndPoll env c s)) = isLoading s"
        using fin r(5) s3 by simp
      moreover have "synced s \<longrightarrow> synced (snd (sendAndPoll env c s))"
        using fin r(6) sy4 by simp
      ultimately show ?thesis using r(1,2) by blast
    qed
  qed
qed

lemma sendMessage_try_frame:
  "\<exists>req rest ms.
     trace (snd (sendMessage_try env c s))
       = trace s @ [AppendMessage ''user'' (messageNode c),
                    SetItem (document (sendMessage_begin c s)), CallAPI req] @ rest
     \<and> length ms \<le> 3 \<and> (\<forall>t\<in>set ms. role t = ''assistant'')
     \<and> messages (snd (sendMessage_try env c s)) = messages s @ new_turn ''user'' c s # ms
     \<and> synced (snd (sendMessage_try env c s))"
proof -
  let ?b = "sendMessage_begin c s"
  have b: "trace ?b = trace s @ [AppendMessage ''user'' (messageNode c), SetItem (document ?b)]"
    "messages ?b = messages s @ [new_turn ''user'' c s]" "synced ?b"
    by (simp_all add: sendMessage_begin_def synced_def new_turn_def)
  let ?st = "startConversation env ?b"
  from startConversation_frame [of env ?b]
  have st: "messages (snd ?st) = messages ?b" "synced (snd ?st)"
    and tr: "(fst ?st = None \<and> trace (snd ?st) = trace ?b)
        \<or> (\<exists>rest. trace (snd ?st) = trace ?b @ CallAPI Start_conversation # rest)"
    using b(3) by simp_all
  show ?thesis
  proof (cases "fst ?st")
    case (Some e)
    then have fin: "snd (sendMessage_try env c s) = snd ?st"
      by (cases ?st) (simp add: sendMessage_try_def)
    from tr Some obtain rest where "trace (snd ?st) = trace ?b @ CallAPI Start_conversation # rest"
      by auto
    then have "trace (snd (sendMessage_try env c s)) = trace s @ [AppendMessage ''user'' (messageNode c),
                    SetItem (document ?b), CallAPI Start_conversation] @ rest"
      using fin b(1) by simp
    moreover have "messages (snd (sendMessage_try env c s)) = messages s @ new_turn ''user'' c s # []"
      using fin st(1) b(2) by simp
    moreover have "synced (snd (sendMessage_try env c s))" using fin st(2) by simp
    moreover have "length ([] :: turn list) \<le> 3" "\<forall>t\<in>set ([] :: turn list). role t = ''assistant''"
      by simp_all
    ultimately show ?thesis by blast
  next
    case None
    then have fin: "snd (sendMessage_try env c s) = snd (sendAndPoll env c (snd ?st))"
      by (cases ?st) (simp add: sendMessage_try_def)
    from sendAndPoll_frame [of env c "snd ?st"]
    obtain rest ms where sp:
      "trace (snd (sendAndPoll env c (snd ?st)))
         = trace (snd ?st) @ CallAPI (Send_message (conversationId (snd ?st)) c) # rest"
      "length ms \<le> 3" "\<forall>t\<in>set ms. role t = ''assistant''"
      "messages (snd (sendAndPoll env c (snd ?st))) = messages (snd ?st) @ ms"
      "synced (snd ?st) \<longrightarrow> synced (snd (sendAndPoll env c (snd ?st)))"
      by blast
    have m: "messages (snd (sendMessage_try env c s)) = messages s @ new_turn ''user'' c s # ms"
      using fin sp(4) st(1) b(2) by simp
    have sy: "synced (snd (sendMessage_try env c s))" using fin sp(5) st(2) by simp
    from tr show ?thesis
    proof
      assume "fst ?st = None \<and> trace (snd ?st) = trace ?b"
      then have "trace (snd (sendMessage_try env c s)) = trace s @ [AppendMessage ''user'' (messageNode c),
                    SetItem (document ?b), CallAPI (Send_message (conversationId (snd ?st)) c)] @ rest"
        using fin sp(1) b(1) by simp
      with m sy sp(2,3) show ?thesis by blast
    next
      assume "\<exists>rest. trace (snd ?st) = trace ?b @ CallAPI Start_conversation # rest"
      then obtain rest' where "trace (snd ?st) = trace ?b @ CallAPI Start_conversation # rest'"
        by blast
      then have "trace (snd (sendMessage_try env c s)) = trace s @ [AppendMessage ''user'' (messageNode c),
                    SetItem (document ?b), CallAPI Start_conversation]
                  @ (rest' @ CallAPI (Send_message (conversationId (snd ?st)) c) # rest)"
        using fin sp(1) b(1) by simp
      with m sy sp(2,3) show ?thesis by blast
    qed
  qed
qed

lemma sendMessage_frame:
  "\<exists>req rest ms.
     trace (sendMessage env c s)
       = trace s @ [AppendMessage ''user'' (messageNode c),
                    SetItem (document (sendMessage_begin c s)), CallAPI req] @ rest
     \<and> length ms \<le> 3 \<and> (\<forall>t\<in>set ms. role t = ''assistant'')
     \<and> messages (sendMessage env c s) = messages s @ new_turn ''user'' c s # ms
     \<and> synced (sendMessage env c s) \<and> \<not> isLoading (sendMessage env c s)"
proof -
  let ?t = "sendMessage_try env c s"
  from sendMessage_try_frame [of env c s]
  obtain req rest ms where f:
    "trace (snd ?t) = trace s @ [AppendMessage ''user'' (messageNode c),
                    SetItem (document (sendMessage_begin c s)), CallAPI req] @ rest"
    "length ms \<le> 3" "\<forall>t\<in>set ms. role t = ''assistant''"
    "messages (snd ?t) = messages s @ new_turn ''user'' c s # ms"
    "synced (snd ?t)"
    by blast
  obtain more where fin: "sendMessage env c s = (snd ?t)\<lparr>trace := trace (snd ?t) @ more, isLoading := False\<rparr>"
  proof (cases "fst ?t")
    case None
    then have "sendMessage env c s = (snd ?t)\<lparr>trace := trace (snd ?t) @ [], isLoading := False\<rparr>"
      by (cases ?t) (simp add: sendMessage_def)
    then show ?thesis using that by blast
  next
    case (Some e)
    then have "sendMessage env c s = (snd ?t)\<lparr>trace := trace (snd ?t) @
        [HideTyping, AppendError (escapeHtml (displayMessage (error_message e))) True], isLoading := False\<rparr>"
      by (cases ?t) (simp add: sendMessage_def showError_def emit_def)
    then show ?thesis using that by blast
  qed
  have "trace (sendMessage env c s) = trace s @ [AppendMessage ''user'' (messageNode c),
                    SetItem (document (sendMessage_begin c s)), CallAPI req] @ (rest @ more)"
    using fin f(1) by simp
  moreover have "messages (sendMessage env c s) = messages s @ new_turn ''user'' c s # ms"
    using fin f(4) by simp
  moreover have "synced (sendMessage env c s)"
    using fin f(5) by (simp add: synced_def document_def)
  moreover have "\<not> isLoading (sendMessage env c s)" using fin by simp
  ultimately show ?thesis using f(2,3) by blast
qed



lemma asking_text: "trim (input_value asking) = ''Who won the most championships?''"
  by (simp add: asking_def constructed_def trim_def isWhiteSpace_def)

lemma server_error_notice: "escapeHtml (displayMessage ''Server error: 503'') = ''Server error: 503''"
  by (simp add: displayMessage_def escapeHtml_def escapeChar_def)


subsection \<open>C2: the hard stop of the polling loop\<close>

lemma timeout_notice:
  "escapeHtml (displayMessage timeoutMessage) = ''Query took too long to complete. Try a simpler question.''"
  by (simp add: timeoutMessage_def displayMessage_def escapeHtml_def escapeChar_def)

lemma total_wait: "sum_list (map delayOf [0..<30]) = 138500"
  using schedule_sum [of 30] by simp

lemma startConversation_ok:
  assumes "start_conversation env = Inr cid"
  shows "fst (startConversation env s) = None
     \<and> (\<exists>evs. trace (snd (startConversation env s)) = trace s @ evs
            \<and> waits evs = [] \<and> filter is_poll (calls evs) = [])
     \<and> messages (snd (startConversation env s)) = messages s
     \<and> clock s \<le> clock (snd (startConversation env s))"
  using assms by (simp add: startConversation_def callAPI_def)

lemma pollForResult_exhausted:
  assumes "\<forall>k<maxAttempts. \<exists>r. poll_result env k = Inr r \<and> keeps_polling r"
  shows "\<exists>c. clock s + sum_list (map delayOf [a..<a + (maxAttempts - a)]) \<le> c \<and>
     pollForResult env mid a s =
       (Inl (Error timeoutMessage),
        s\<lparr>clock := c,
          trace := trace s @ poll_events (conversationId s) mid a (maxAttempts - a)\<rparr>)"
proof (induction "maxAttempts - a" arbitrary: a s)
  case 0
  then have "maxAttempts \<le> a" by simp
  then have "pollForResult env mid a s = (Inl (Error timeoutMessage), s)"
    by (simp add: pollForResult.simps timeoutMessage_def)
  moreover have "s\<lparr>clock := clock s, trace := trace s @ poll_events (conversationId s) mid a 0\<rparr> = s"
    by simp
  moreover have "clock s + sum_list (map delayOf [a..<a + 0]) \<le> clock s" by simp
  ultimately show ?case using 0 by metis
next
  case (Suc m)
  then have lt: "a < maxAttempts" by simp
  with assms obtain r where r: "poll_result env a = Inr r" "keeps_polling r" by blast
  let ?s1 = "poll_once env mid a s"
  have step: "pollForResult env mid a s = pollForResult env mid (a + 1) ?s1"
    using r by (simp add: pollForResult_step [OF lt])
  from Suc have m: "m = maxAttempts - (a + 1)" by simp
  from Suc.hyps(1) [OF m, of ?s1]
  obtain c where c: "clock ?s1 + sum_list (map delayOf [a + 1..<a + 1 + (maxAttempts - (a + 1))]) \<le> c"
    and eq: "pollForResult env mid (a + 1) ?s1 =
       (Inl (Error timeoutMessage),
        ?s1\<lparr>clock := c,
          trace := trace ?s1 @ poll_events (conversationId ?s1) mid (a + 1) (maxAttempts - (a + 1))\<rparr>)"
    by blast
  have suc: "maxAttempts - a = Suc (maxAttempts - (a + 1))" using lt by simp
  have st: "?s1\<lparr>clock := c,
          trace := trace ?s1 @ poll_events (conversationId ?s1) mid (a + 1) (maxAttempts - (a + 1))\<rparr>
      = s\<lparr>clock := c, trace := trace s @ poll_events (conversationId s) mid a (maxAttempts - a)\<rparr>"
    by (simp add: poll_once_def suc)
  have "[a..<a + (maxAttempts - a)] = a # [a + 1..<a + 1 + (maxAttempts - (a + 1))]"
    using lt by (simp add: upt_rec)
  then have "clock s + sum_list (map delayOf [a..<a + (maxAttempts - a)]) \<le> c"
    using c by (simp add: poll_once_def delayOf_def)
  with step eq st show ?case by auto
qed

lemma sendAndPoll_exhausted:
  assumes "send_message env (conversationId s) c = Inr md"
    and "\<forall>k<maxAttempts. \<exists>r. poll_result env k = Inr r \<and> keeps_polling r"
  shows "fst (sendAndPoll env c s) = Some (Error timeoutMessage)
     \<and> trace (snd (sendAndPoll env c s))
         = trace s @ [CallAPI (Send_message (conversationId s) c), ShowTyping]
             @ poll_events (conversationId s) (message_id md) 0 30
     \<and> messages (snd (sendAndPoll env c s)) = messages s
     \<and> clock s + 138500 \<le> clock (snd (sendAndPoll env c s))"
proof -
  let ?req = "Send_message (conversationId s) c"
  let ?s2 = "emit ShowTyping (emit (CallAPI ?req) (s\<lparr>clock := clock s + latency env ?req\<rparr>))"
  from pollForResult_exhausted [OF assms(2), of ?s2 0 "message_id md"]
  obtain t where t: "clock ?s2 + sum_list (map delayOf [0..<30]) \<le> t"
    and eq: "pollForResult env (message_id md) 0 ?s2 =
       (Inl (Error timeoutMessage),
        ?s2\<lparr>clock := t, trace := trace ?s2 @ poll_events (conversationId ?s2) (message_id md) 0 30\<rparr>)"
    by (auto simp: maxAttempts_def)
  have "sendAndPoll env c s = (Some (Error timeoutMessage),
        ?s2\<lparr>clock := t, trace := trace ?s2 @ poll_events (conversationId ?s2) (message_id md) 0 30\<rparr>)"
    using assms(1) eq by (simp add: sendAndPoll_def callAPI_def Let_def)
  moreover have "clock s + 138500 \<le> t" using t by (simp add: total_wait)
  ultimately show ?thesis by simp
qed

text \<open>
  C2, on the code. When the conversation starts, the message is sent and no poll throws or
  answers COMPLETED or FAILED, \<open>handleSend\<close> sends exactly 30 polls, ends with the notice
  that the query took too long, and clears \<open>isLoading\<close>; only the user's turn was added to
  the history. The waits of the 30 attempts add up to 138500 ms, so that the clock has
  advanced by at least that much: more than twice the 60 seconds the source's comments
  promise.
\<close>

theorem polling_times_out:
  assumes "5 \<le> length (trim (input_value s))" and "length (trim (input_value s)) \<le> 1000"
    and "\<not> isLoading s"
    and "\<exists>cid. start_conversation env = Inr cid"
    and "\<forall>cid. \<exists>md. send_message env cid (trim (input_value s)) = Inr md"
    and "\<forall>k<maxAttempts. \<exists>r. poll_result env k = Inr r \<and> keeps_polling r"
  shows "\<exists>evs. trace (handleSend env s) = trace s @ evs
     \<and> length (filter is_poll (calls evs)) = 30
     \<and> last evs = AppendError ''Query took too long to complete. Try a simpler question.'' True
     \<and> \<not> isLoading (handleSend env s)
     \<and> messages (handleSend env s)
         = messages s @ [\<lparr>role = ''user'', content = trim (input_value s), timestamp = clock s\<rparr>]
     \<and> sum_list (waits evs) = 138500
     \<and> clock s + 138500 \<le> clock (handleSend env s)"
proof -
  let ?text = "trim (input_value s)"
  let ?s0 = "s\<lparr>input_value := [], sendBtn_disabled := True, lastQuery := Some ?text\<rparr>"
  let ?b = "sendMessage_begin ?text ?s0"
  let ?st = "startConversation env ?b"
  let ?sp = "sendAndPoll env ?text (snd ?st)"
  have h: "handleSend env s = sendMessage env ?text ?s0"
    using assms(1,2,3) by (simp add: handleSend_def Let_def)
  have b: "trace ?b = trace s @ [AppendMessage ''user'' (messageNode ?text), SetItem (document ?b)]"
    "messages ?b = messages s @ [\<lparr>role = ''user'', content = ?text, timestamp = clock s\<rparr>]"
    "clock ?b = clock s"
    by (simp_all add: sendMessage_begin_def new_turn_def)
  from assms(4) obtain cid where "start_conversation env = Inr cid" by blast
  from startConversation_ok [OF this, of ?b]
  obtain evs1 where st: "fst ?st = None" "trace (snd ?st) = trace ?b @ evs1" "waits evs1 = []"
    "filter is_poll (calls evs1) = []" "messages (snd ?st) = messages ?b" "clock ?b \<le> clock (snd ?st)"
    by blast
  from assms(5) obtain md where "send_message env (conversationId (snd ?st)) ?text = Inr md"
    by blast
  from sendAndPoll_exhausted [OF this assms(6)]
  have sp: "fst ?sp = Some (Error timeoutMessage)"
    "trace (snd ?sp) = trace (snd ?st) @ [CallAPI (Send_message (conversationId (snd ?st)) ?text), ShowTyping]
             @ poll_events (conversationId (snd ?st)) (message_id md) 0 30"
    "messages (snd ?sp) = messages (snd ?st)"
    "clock (snd ?st) + 138500 \<le> clock (snd ?sp)"
    by simp_all
  have tried: "sendMessage_try env ?text ?s0 = (Some (Error timeoutMessage), snd ?sp)"
    using st(1) sp(1) by (cases ?st, cases ?sp) (simp add: sendMessage_try_def)
  let ?evs = "[AppendMessage ''user'' (messageNode ?text), SetItem (document ?b)] @ evs1
      @ [CallAPI (Send_message (conversationId (snd ?st)) ?text), ShowTyping]
      @ poll_events (conversationId (snd ?st)) (message_id md) 0 30
      @ [HideTyping, AppendError ''Query took too long to complete. Try a simpler question.'' True]"
  have fin: "handleSend env s
      = (snd ?sp)\<lparr>trace := trace (snd ?sp) @ [HideTyping,
            AppendError ''Query took too long to complete. Try a simpler question.'' True],
          isLoading := False\<rparr>"
    unfolding h using tried
    by (simp add: sendMessage_def showError_def emit_def timeout_notice)
  have tr: "trace (handleSend env s) = trace s @ ?evs"
    using fin sp(2) st(2) b(1) by simp
  have polls: "length (filter is_poll (calls ?evs)) = 30"
    using st(4) by (simp add: calls_append calls_poll_events)
  have ws: "sum_list (waits ?evs) = 138500"
    using st(3) total_wait by (simp add: waits_append waits_poll_events)
  have "last ?evs = AppendError ''Query took too long to complete. Try a simpler question.'' True"
    by simp
  moreover have "\<not> isLoading (handleSend env s)" using fin by simp
  moreover have "messages (handleSend env s)
         = messages s @ [\<lparr>role = ''user'', content = ?text, timestamp = clock s\<rparr>]"
    using fin sp(3) st(5) b(2) by simp
  moreover have "clock s + 138500 \<le> clock (handleSend env s)"
    using fin sp(4) st(6) b(3) by simp
  ultimately show ?thesis using tr polls ws by blast
qed

theorem polling_times_out_witness:
  "5 \<le> length (trim (input_value asking)) \<and> length (trim (input_value asking)) \<le> 1000
   \<and> \<not> isLoading asking
   \<and> start_conversation relay_stuck = Inr (Some ''c1'')
   \<and> poll_result relay_stuck 0 = Inr executing \<and> poll_result relay_stuck 29 = Inr executing
   \<and> keeps_polling executing
   \<and> length (filter is_poll (calls (trace (handleSend relay_stuck asking)))) = 30
   \<and> sum_list (waits (trace (handleSend relay_stuck asking))) = 138500
   \<and> last (trace (handleSend relay_stuck asking))
       = AppendError ''Query took too long to complete. Try a simpler question.'' True
   \<and> \<not> isLoading (handleSend relay_stuck asking)
   \<and> 1000 + 138500 \<le> clock (handleSend relay_stuck asking)"
proof -
  have a: "5 \<le> length (trim (input_value asking))" by (simp add: asking_text)
  have b: "length (trim (input_value asking)) \<le> 1000" by (simp add: asking_text)
  have c: "\<not> isLoading asking" by (simp add: asking_def constructed_def)
  have d: "\<exists>cid. start_conversation relay_stuck = Inr cid"
    by (simp add: relay_stuck_def relay_slow_def)
  have e: "\<forall>cid. \<exists>md. send_message relay_stuck cid (trim (input_value asking)) = Inr md"
    by (simp add: relay_stuck_def relay_slow_def)
  have f: "\<forall>k<maxAttempts. \<exists>r. poll_result relay_stuck k = Inr r \<and> keeps_polling r"
    by (simp add: relay_stuck_def relay_slow_def keeps_polling_def executing_def)
  have t: "trace asking = []" "clock asking = 1000" by (simp_all add: asking_def constructed_def)
  have g: "start_conversation relay_stuck = Inr (Some ''c1'')"
    by (simp add: relay_stuck_def relay_slow_def)
  have k: "poll_result relay_stuck 0 = Inr executing" "poll_result relay_stuck 29 = Inr executing"
    "keeps_polling executing"
    by (simp_all add: relay_stuck_def relay_slow_def keeps_polling_def executing_def)
  from polling_times_out [OF a b c d e f] t a b c g k show ?thesis by auto
qed

subsection \<open>C5: a second submission while one is in flight\<close>

text \<open>
  C5 fails on the code. \<open>handleSend\<close> turns a second submission away while \<open>isLoading\<close> is
  set, but the retry button of an earlier error notice calls \<open>sendMessage\<close>, which has no such
  guard: with a question in flight and \<open>lastQuery\<close> set, a click on it removes the notice,
  adds a further user turn to the history and stores it, calls the relay, and leaves
  \<open>isLoading\<close> cleared.
\<close>

theorem retry_while_loading:
  assumes "isLoading s" and "lastQuery s = Some q" and "q \<noteq> []"
  shows "\<exists>doc req rest answers.
       trace (retryClick env s)
         = trace s @ [RemoveError, AppendMessage ''user'' (messageNode q), SetItem doc, CallAPI req]
             @ rest
     \<and> messages (retryClick env s)
         = messages s @ \<lparr>role = ''user'', content = q, timestamp = clock s\<rparr> # answers
     \<and> \<not> isLoading (retryClick env s)"
proof -
  let ?s1 = "emit RemoveError s"
  have r: "retryClick env s = sendMessage env q ?s1"
    using assms(2,3) by (simp add: retryClick_def Let_def)
  from sendMessage_frame [of env q ?s1]
  obtain req rest ms where f:
    "trace (sendMessage env q ?s1)
       = trace ?s1 @ [AppendMessage ''user'' (messageNode q),
                    SetItem (document (sendMessage_begin q ?s1)), CallAPI req] @ rest"
    "messages (sendMessage env q ?s1) = messages ?s1 @ new_turn ''user'' q ?s1 # ms"
    "\<not> isLoading (sendMessage env q ?s1)"
    by blast
  have "trace (retryClick env s)
         = trace s @ [RemoveError, AppendMessage ''user'' (messageNode q),
                      SetItem (document (sendMessage_begin q ?s1)), CallAPI req] @ rest"
    using r f(1) by simp
  moreover have "messages (retryClick env s)
         = messages s @ \<lparr>role = ''user'', content = q, timestamp = clock s\<rparr> # ms"
    using r f(2) by (simp add: new_turn_def)
  moreover have "\<not> isLoading (retryClick env s)" using r f(3) by simp
  ultimately show ?thesis by blast
qed

text \<open>
  At the example state the second question is in flight; the click on the retry button of
  the first question's notice sends it once more.
\<close>

lemma first_question_failed:
  "conversationId (handleSend relay_down asking) = None"
  "messages (handleSend relay_down asking)
     = [\<lparr>role = ''user'', content = ''Who won the most championships?'', timestamp = 1000\<rparr>]"
  "clock (handleSend relay_down asking) = 1040"
  "AppendError ''Server error: 503'' True \<in> set (trace (handleSend relay_down asking))"
proof -
  have "\<not> isLoading asking" by (simp add: asking_def constructed_def)
  then have run: "handleSend relay_down asking
      = sendMessage relay_down ''Who won the most championships?''
          (asking\<lparr>input_value := [], sendBtn_disabled := True,
                  lastQuery := Some ''Who won the most championships?''\<rparr>)"
    by (simp add: handleSend_def Let_def asking_text)
  show "conversationId (handleSend relay_down asking) = None"
    "messages (handleSend relay_down asking)
     = [\<lparr>role = ''user'', content = ''Who won the most championships?'', timestamp = 1000\<rparr>]"
    "clock (handleSend relay_down asking) = 1040"
    "AppendError ''Server error: 503'' True \<in> set (trace (handleSend relay_down asking))"
    unfolding run
    by (simp_all add: sendMessage_def sendMessage_try_def sendMessage_begin_def
        startConversation_def relay_down_def relay_slow_def callAPI_def showError_def
        server_error_notice new_turn_def asking_def constructed_def)
qed

lemma in_flight_state:
  "isLoading in_flight" "lastQuery in_flight = Some ''Who won in 1999?''"
  "conversationId in_flight = None" "clock in_flight = 1040"
  "AppendError ''Server error: 503'' True \<in> set (trace in_flight)"
  "messages in_flight
     = [\<lparr>role = ''user'', content = ''Who won the most championships?'', timestamp = 1000\<rparr>,
        \<lparr>role = ''user'', content = ''Who won in 1999?'', timestamp = 1040\<rparr>]"
  by (simp_all add: in_flight_def sendMessage_begin_def first_question_failed new_turn_def)

theorem retry_while_loading_witness:
  "isLoading in_flight \<and> lastQuery in_flight = Some ''Who won in 1999?''
   \<and> AppendError ''Server error: 503'' True \<in> set (trace in_flight)
   \<and> messages (retryClick relay_down in_flight)
       = [\<lparr>role = ''user'', content = ''Who won the most championships?'', timestamp = 1000\<rparr>,
          \<lparr>role = ''user'', content = ''Who won in 1999?'', timestamp = 1040\<rparr>,
          \<lparr>role = ''user'', content = ''Who won in 1999?'', timestamp = 1040\<rparr>]
   \<and> calls (trace (retryClick relay_down in_flight))
       = calls (trace in_flight) @ [Start_conversation]
   \<and> \<not> isLoading (retryClick relay_down in_flight)"
proof -
  have q: "''Who won in 1999?'' \<noteq> []" by simp
  let ?s1 = "emit RemoveError in_flight"
  have r: "retryClick relay_down in_flight = sendMessage relay_down ''Who won in 1999?'' ?s1"
    by (simp add: retryClick_def Let_def in_flight_state)
  have m: "messages (retryClick relay_down in_flight)
      = messages in_flight @ [\<lparr>role = ''user'', content = ''Who won in 1999?'', timestamp = 1040\<rparr>]"
    unfolding r
    by (simp add: sendMessage_def sendMessage_try_def sendMessage_begin_def startConversation_def
        relay_down_def relay_slow_def callAPI_def showError_def new_turn_def in_flight_state)
  have c: "calls (trace (retryClick relay_down in_flight))
      = calls (trace in_flight) @ [Start_conversation]"
    unfolding r
    by (simp add: sendMessage_def sendMessage_try_def sendMessage_begin_def startConversation_def
        relay_down_def relay_slow_def callAPI_def showError_def calls_append in_flight_state)
  from retry_while_loading [OF in_flight_state(1,2) q, of relay_down] m c
  show ?thesis by (auto simp: in_flight_state)
qed

end
